theory Spec2Isabelle
  imports Complex_Main
begin

section \<open>Array operations of the runtime\<close>

text \<open>
  The service is written in JavaScript. Three array methods carry the window logic:
  \<^verbatim>\<open>Array.prototype.includes\<close>, \<^verbatim>\<open>Array.prototype.slice\<close> and
  \<^verbatim>\<open>Array.prototype.filter\<close>. \<^verbatim>\<open>filter\<close> is the list function of the same name;
  the other two are written out here with the index arithmetic of the language standard:
  a negative index counts from the end of the array, and every index is clamped to the
  range from 0 to the length.
\<close>

definition array_includes :: "'a list \<Rightarrow> 'a \<Rightarrow> bool" where
  "array_includes xs x = (x \<in> set xs)"

definition relative_index :: "int \<Rightarrow> int \<Rightarrow> int" where
  "relative_index len k = (if k < 0 then max (len + k) 0 else min k len)"

definition slice :: "'a list \<Rightarrow> int \<Rightarrow> int \<Rightarrow> 'a list" where
  "slice xs start stop =
     (let len = int (length xs);
          k = relative_index len start;
          final = relative_index len stop
      in take (nat (final - k)) (drop (nat k) xs))"

definition slice_from :: "'a list \<Rightarrow> int \<Rightarrow> 'a list" where
  "slice_from xs start = slice xs start (int (length xs))"

section \<open>The sliding window\<close>

definition WINDOW_SIZE :: int where
  "WINDOW_SIZE = 10"

text \<open>
  \<^verbatim>\<open>updateWindow(newNumbers)\<close> reads and assigns the global \<^verbatim>\<open>numberWindow\<close>. The model
  passes the window in and returns the window the global holds afterwards.
\<close>

definition updateWindow :: "'a list \<Rightarrow> 'a list \<Rightarrow> 'a list" where
  "updateWindow numberWindow newNumbers =
     (let unique = filter (\<lambda>num. \<not> array_includes numberWindow num) newNumbers
      in if length unique = 0 then numberWindow
         else
           let overflow = int (length numberWindow) + int (length unique) - WINDOW_SIZE;
               numberWindow' = (if overflow > 0 then slice_from numberWindow overflow
                                else numberWindow)
           in numberWindow' @ slice unique 0 (WINDOW_SIZE - int (length numberWindow')))"

text \<open>
  The window starts empty (\<^verbatim>\<open>let numberWindow = []\<close>) and is assigned nowhere but in
  \<^verbatim>\<open>updateWindow\<close>, so the states it can hold are the results of merging a sequence of
  batches, one after the other, into the empty window.
\<close>

definition window_after :: "'a list list \<Rightarrow> 'a list" where
  "window_after batches = foldl updateWindow [] batches"

text \<open>
  The merge as the specification words it, for a capacity given as a parameter. Step 1
  keeps the new numbers that are not in the window, in their order, and leaves the window
  as it is when none is left. Step 2 evicts \<open>overflow\<close> elements from the front when
  \<open>overflow\<close> is positive, step 3 appends the first \<open>take\<close> elements of \<open>unique\<close>.
\<close>

definition evict_and_append :: "nat \<Rightarrow> 'a list \<Rightarrow> 'a list \<Rightarrow> 'a list" where
  "evict_and_append capacity current_window unique =
     (let overflow = int (length current_window) + int (length unique) - int capacity;
          trimmed_window = (if overflow > 0 then drop (nat overflow) current_window
                            else current_window);
          take_count = capacity - length trimmed_window
      in trimmed_window @ take take_count unique)"

definition merge_spec :: "nat \<Rightarrow> 'a list \<Rightarrow> 'a list \<Rightarrow> 'a list" where
  "merge_spec capacity current_window new_numbers =
     (let unique = filter (\<lambda>n. n \<notin> set current_window) new_numbers
      in if unique = [] then current_window
         else evict_and_append capacity current_window unique)"

section \<open>Numbers\<close>

text \<open>
  A number of the language is an IEEE 754 double: a finite value, one of the two
  infinities, or NaN. A finite double is given by its value, a real number; the two
  zeros are one value here, as they are for \<^verbatim>\<open>includes\<close> and in every JSON text the
  service sends. Equality on this type is the comparison \<^verbatim>\<open>includes\<close> makes: NaN is
  found in an array that holds NaN. Only some real numbers are doubles: \<open>Num x\<close> is a
  number of the language when \<open>x\<close> is \<open>representable\<close> as defined below.
\<close>

datatype js_number = Num real | Infinity | NegInfinity | NaN

text \<open>
  Rounding a real number to the nearest double. \<open>binade a\<close> is the exponent \<open>e\<close> with
  \<open>2\<^sup>e \<le> a < 2\<^sup>e\<^sup>+\<^sup>1\<close>, kept between -1022 (below it the doubles are subnormal and
  equally spaced) and 1023; doubles of that binade are the multiples of
  \<open>2\<^sup>e\<^sup>-\<^sup>5\<^sup>2\<close>. The nearest multiple is taken, the even one on a tie, and a result of
  magnitude \<open>2\<^sup>1\<^sup>0\<^sup>2\<^sup>4\<close> or more is an infinity.
\<close>

fun exponent_search :: "nat \<Rightarrow> real \<Rightarrow> int" where
  "exponent_search 0 a = - 1022"
| "exponent_search (Suc k) a =
     (if 2 powi (int (Suc k) - 1022) \<le> a then int (Suc k) - 1022 else exponent_search k a)"

definition binade :: "real \<Rightarrow> int" where
  "binade a = exponent_search 2045 a"

definition round_even :: "real \<Rightarrow> int" where
  "round_even q =
     (let f = \<lfloor>q\<rfloor>; d = q - of_int f
      in if d < 1 / 2 then f
         else if d > 1 / 2 then f + 1
         else if even f then f else f + 1)"

definition to_double :: "real \<Rightarrow> js_number" where
  "to_double x =
     (let ulp = 2 powi (binade \<bar>x\<bar> - 52);
          y = of_int (round_even (x / ulp)) * ulp
      in if \<bar>y\<bar> \<ge> 2 powi 1024 then (if y > 0 then Infinity else NegInfinity)
         else Num y)"

definition representable :: "real \<Rightarrow> bool" where
  "representable x = (to_double x = Num x)"

text \<open>The operator \<^verbatim>\<open>+\<close> on two numbers: the exact sum, rounded.\<close>

fun js_add :: "js_number \<Rightarrow> js_number \<Rightarrow> js_number" where
  "js_add (Num a) (Num b) = to_double (a + b)"
| "js_add NaN y = NaN"
| "js_add x NaN = NaN"
| "js_add Infinity NegInfinity = NaN"
| "js_add NegInfinity Infinity = NaN"
| "js_add Infinity y = Infinity"
| "js_add x Infinity = Infinity"
| "js_add NegInfinity y = NegInfinity"
| "js_add x NegInfinity = NegInfinity"

text \<open>
  The operator \<^verbatim>\<open>/\<close> with the length of an array on the right: the exact quotient,
  rounded. A length is a non-negative integer below \<open>2\<^sup>3\<^sup>2\<close>, so it is a double as it
  stands; the length 0 is the positive zero.
\<close>

fun divide_by_length :: "js_number \<Rightarrow> nat \<Rightarrow> js_number" where
  "divide_by_length (Num s) n =
     (if n = 0 then (if s = 0 then NaN else if s > 0 then Infinity else NegInfinity)
      else to_double (s / real n))"
| "divide_by_length x n = x"

section \<open>The average\<close>

definition calculateAverage :: "js_number list \<Rightarrow> js_number" where
  "calculateAverage numbers =
     (if length numbers = 0 then Num 0
      else let sum = foldl (\<lambda>acc num. js_add acc num) (Num 0) numbers
           in divide_by_length sum (length numbers))"

text \<open>
  \<^verbatim>\<open>Number.parseFloat(avg.toFixed(2))\<close>. For a finite number below \<open>10\<^sup>2\<^sup>1\<close> in magnitude
  \<^verbatim>\<open>toFixed(2)\<close> prints the nearest multiple of 1/100 of the number's exact value, the
  one of larger magnitude on a tie, and \<^verbatim>\<open>parseFloat\<close> reads that decimal as the nearest
  double. From \<open>10\<^sup>2\<^sup>1\<close> on, and for the infinities and NaN, the number is printed in
  full and read back as itself.
\<close>

fun toFixed2 :: "js_number \<Rightarrow> js_number" where
  "toFixed2 (Num x) =
     (if \<bar>x\<bar> \<ge> 10 ^ 21 then Num x
      else if x < 0 then to_double (- (real_of_int \<lfloor>- x * 100 + 1 / 2\<rfloor> / 100))
      else to_double (real_of_int \<lfloor>x * 100 + 1 / 2\<rfloor> / 100))"
| "toFixed2 x = x"

section \<open>The upstream fetch\<close>

text \<open>
  An error object of the runtime, with the two fields the service reads.
\<close>

record js_error =
  err_name :: string
  err_message :: string

text \<open>
  What the service can read of a response body. The property \<^verbatim>\<open>numbers\<close> of the parsed
  body is falsy (the property is absent, as on every body that is not an object, or it
  is \<^verbatim>\<open>null\<close>, \<^verbatim>\<open>false\<close>, \<^verbatim>\<open>0\<close> or the empty string) or truthy; a truthy value is an
  array or something else (\<^verbatim>\<open>true\<close>, a non-zero number, a non-empty string, an object),
  kept as its JSON text. The parsed body itself is \<^verbatim>\<open>null\<close>, which has no properties, or
  any other value.
\<close>

datatype 'a js_value = ArrayOf "'a list" | NonArray string

datatype 'a property = Falsy | Truthy "'a js_value"

datatype 'a json_data = JsonNull | JsonValue "'a property"

text \<open>
  A response has a status, and reading its body as JSON either throws or gives the
  parsed body; \<open>body_ms\<close> is the time in milliseconds the body takes to arrive once the
  head of the response is there.
\<close>

record 'a response =
  status :: nat
  json :: "js_error + 'a json_data"
  body_ms :: nat

datatype 'a fetch_outcome = Rejected js_error | Resolved "'a response"

text \<open>
  What the network does with one request that nobody aborts: after \<open>head_ms\<close>
  milliseconds the promise of \<^verbatim>\<open>fetch\<close> settles, rejected because the request failed or
  resolved with the response whose head has arrived.
\<close>

record 'a exchange =
  head_ms :: nat
  outcome :: "'a fetch_outcome"

text \<open>
  \<^verbatim>\<open>fetch(url, {signal})\<close> next to \<^verbatim>\<open>setTimeout(() => controller.abort(), timeoutMs)\<close>:
  the promise settles as the network has it when that happens before the timer runs out,
  and is rejected with an \<^verbatim>\<open>AbortError\<close> otherwise (at equal times the timer is taken to
  come first). Once the promise has settled the timer is cleared, so the time the body
  takes is not limited.
\<close>

definition fetch_with_abort :: "'a exchange \<Rightarrow> nat \<Rightarrow> 'a fetch_outcome" where
  "fetch_with_abort x timeoutMs =
     (if head_ms x < timeoutMs then outcome x
      else Rejected \<lparr>err_name = ''AbortError'', err_message = ''The operation was aborted.''\<rparr>)"

definition ok :: "'a response \<Rightarrow> bool" where
  "ok r = (200 \<le> status r \<and> status r \<le> 299)"

fun decimal :: "nat \<Rightarrow> string" where
  "decimal n =
     (if n < 10 then [''0123456789'' ! n]
      else decimal (n div 10) @ [''0123456789'' ! (n mod 10)])"

declare decimal.simps [simp del]

text \<open>
  The body of the \<^verbatim>\<open>try\<close> block, given how the promise of \<^verbatim>\<open>fetch\<close> settled: \<open>Inl\<close>
  is a thrown error. Reading \<^verbatim>\<open>data.numbers\<close> throws a \<^verbatim>\<open>TypeError\<close> when the body is
  \<^verbatim>\<open>null\<close>; \<^verbatim>\<open>data.numbers || []\<close> is the property when it is truthy and a new empty
  array when it is not.
\<close>

definition fetch_attempt :: "'a fetch_outcome \<Rightarrow> js_error + 'a js_value" where
  "fetch_attempt settled =
     (case settled of
        Rejected err \<Rightarrow> Inl err
      | Resolved response \<Rightarrow>
          if \<not> ok response
          then Inl \<lparr>err_name = ''Error'',
                    err_message = ''Status: '' @ decimal (status response)\<rparr>
          else (case json response of
                  Inl err \<Rightarrow> Inl err
                | Inr JsonNull \<Rightarrow>
                    Inl \<lparr>err_name = ''TypeError'',
                         err_message = ''Cannot read properties of null (reading 'numbers')''\<rparr>
                | Inr (JsonValue numbers) \<Rightarrow>
                    Inr (case numbers of Truthy v \<Rightarrow> v | Falsy \<Rightarrow> ArrayOf [])))"

text \<open>
  The network is a parameter: \<open>fetch url\<close> is what it does with a request to \<open>url\<close>.
\<close>

definition fetchNumbersWithTimeout ::
  "(string \<Rightarrow> 'a exchange) \<Rightarrow> string \<Rightarrow> nat \<Rightarrow> js_error + 'a js_value" where
  "fetchNumbersWithTimeout fetch url timeoutMs =
     (case fetch_attempt (fetch_with_abort (fetch url) timeoutMs) of
        Inr numbers \<Rightarrow> Inr numbers
      | Inl err \<Rightarrow> if err_name err = ''AbortError'' then Inr (ArrayOf []) else Inl err)"



section \<open>The route \<^verbatim>\<open>/numbers/:numberid\<close>\<close>

definition API_ENDPOINTS :: "string \<rightharpoonup> string" where
  "API_ENDPOINTS =
     [''p'' \<mapsto> ''http://20.244.56.144/evaluation-service/primes'',
      ''f'' \<mapsto> ''http://20.244.56.144/evaluation-service/fibo'',
      ''e'' \<mapsto> ''http://20.244.56.144/evaluation-service/even'',
      ''r'' \<mapsto> ''http://20.244.56.144/evaluation-service/rand'']"

text \<open>
  \<^verbatim>\<open>API_ENDPOINTS[numberid]\<close> as \<^verbatim>\<open>fetch\<close> reads it: a missing key gives
  \<^verbatim>\<open>undefined\<close>, which is turned into the string of that name.
\<close>

definition endpoint :: "string \<Rightarrow> string" where
  "endpoint numberid = (case API_ENDPOINTS numberid of Some u \<Rightarrow> u | None \<Rightarrow> ''undefined'')"

datatype body =
  ErrorJson string "string option"
| NumbersJson "js_number list" "js_number list" "js_number list" js_number

record http_response =
  code :: nat
  content :: body

text \<open>
  The handler's effects besides its answer: the window it leaves in the global, and, in
  the order they happen, the requests it sends upstream and the merges it performs.
  Console output and the measurement of the processing time, which only feeds a warning,
  are left out. One request is handled from start to end; requests that overlap while one
  of them awaits the upstream are not part of this model. The elements of a fetched array
  are taken to be numbers.

  \<^verbatim>\<open>updateWindow(numbers)\<close> starts with \<^verbatim>\<open>newNumbers.filter\<close>, which throws a
  \<^verbatim>\<open>TypeError\<close> when the fetched value is not an array; the window has not been touched
  then, and the \<^verbatim>\<open>catch\<close> block answers 500 as it does for an error of the fetch.
\<close>

datatype effect = UpstreamRequest string | WindowMerge "js_number list"

record handled =
  answer :: http_response
  window :: "js_number list"
  effects :: "effect list"

definition numbers_route ::
  "(string \<Rightarrow> js_number exchange) \<Rightarrow> js_number list \<Rightarrow> string \<Rightarrow> handled" where
  "numbers_route fetch numberWindow numberid =
     (if \<not> array_includes [''p'', ''f'', ''e'', ''r''] numberid
      then \<lparr>answer = \<lparr>code = 400,
                        content = ErrorJson ''Invalid number ID. Use p, f, e, or r.'' None\<rparr>,
            window = numberWindow, effects = []\<rparr>
      else
        let windowPrevState = numberWindow;
            url = endpoint numberid
        in case fetchNumbersWithTimeout fetch url 500 of
             Inl error \<Rightarrow>
               \<lparr>answer = \<lparr>code = 500,
                           content = ErrorJson ''Failed to process request''
                                       (Some (err_message error))\<rparr>,
                window = numberWindow, effects = [UpstreamRequest url]\<rparr>
           | Inr (NonArray v) \<Rightarrow>
               \<lparr>answer = \<lparr>code = 500,
                           content = ErrorJson ''Failed to process request''
                                       (Some ''newNumbers.filter is not a function'')\<rparr>,
                window = numberWindow, effects = [UpstreamRequest url]\<rparr>
           | Inr (ArrayOf numbers) \<Rightarrow>
               let numberWindow' = updateWindow numberWindow numbers;
                   avg = calculateAverage numberWindow'
               in \<lparr>answer = \<lparr>code = 200,
                              content = NumbersJson windowPrevState numberWindow' numbers
                                          (toFixed2 avg)\<rparr>,
                   window = numberWindow',
                   effects = [UpstreamRequest url, WindowMerge numbers]\<rparr>)"

section \<open>Upstream behaviours used as examples\<close>


definition upstream_without_numbers :: "string \<Rightarrow> js_number exchange" where
  "upstream_without_numbers url =
     \<lparr>head_ms = 120,
      outcome = Resolved \<lparr>status = 200, json = Inr (JsonValue Falsy), body_ms = 5\<rparr>\<rparr>"


definition upstream_unavailable :: "string \<Rightarrow> js_number exchange" where
  "upstream_unavailable url =
     \<lparr>head_ms = 120,
      outcome = Resolved \<lparr>status = 503, json = Inr (JsonValue Falsy), body_ms = 5\<rparr>\<rparr>"




definition upstream_scalar :: "string \<Rightarrow> js_number exchange" where
  "upstream_scalar url =
     \<lparr>head_ms = 120,
      outcome = Resolved \<lparr>status = 200,
                          json = Inr (JsonValue (Truthy (NonArray ''7''))),
                          body_ms = 5\<rparr>\<rparr>"

section \<open>Properties of the merge\<close>

subsection \<open>The array operations on the indices the merge uses\<close>

lemma slice_from_drop: "0 \<le> k \<Longrightarrow> slice_from xs k = drop (nat k) xs"
  by (cases "k \<le> int (length xs)")
     (simp_all add: slice_from_def slice_def relative_index_def Let_def min_def)

lemma slice_prefix: "0 \<le> k \<Longrightarrow> slice xs 0 k = take (nat k) xs"
  by (cases "k \<le> int (length xs)")
     (simp_all add: slice_def relative_index_def Let_def min_def)

lemma nat_capacity_diff: "nat (int c - int n) = c - n"
  by simp

subsection \<open>The code computes the specified merge\<close>

text \<open>
  The end index \<^verbatim>\<open>WINDOW_SIZE - numberWindow.length\<close> of the second \<^verbatim>\<open>slice\<close> is
  never negative when it is evaluated: the window has just been cut to at most
  \<^verbatim>\<open>WINDOW_SIZE\<close> elements, or was short enough not to be cut. So the slice is a prefix
  and never counts from the end.
\<close>

lemma updateWindow_merge_spec: "updateWindow w ns = merge_spec (nat WINDOW_SIZE) w ns"
proof -
  let ?u = "filter (\<lambda>n. n \<notin> set w) ns"
  let ?ov = "int (length w) + int (length ?u) - 10"
  let ?t = "if ?ov > 0 then drop (nat ?ov) w else w"
  have trim: "(if ?ov > 0 then slice_from w ?ov else w) = ?t"
    by (simp add: slice_from_drop)
  have fits: "0 \<le> 10 - int (length ?t)" if "?u \<noteq> []"
    using that by (auto simp: neq_Nil_conv)
  have count: "nat (10 - int (length ?t)) = 10 - length ?t"
    using nat_capacity_diff [of 10 "length ?t"] by simp
  show ?thesis
  proof (cases "?u = []")
    case True
    then show ?thesis
      by (simp add: updateWindow_def merge_spec_def array_includes_def)
  next
    case False
    from fits [OF False] have "slice ?u 0 (10 - int (length ?t)) = take (10 - length ?t) ?u"
      by (simp only: slice_prefix count)
    with False show ?thesis
      unfolding updateWindow_def merge_spec_def evict_and_append_def array_includes_def
        WINDOW_SIZE_def Let_def trim
      by simp
  qed
qed

text \<open>
  On a window within the capacity, stopping early at an empty \<open>unique\<close> is what steps 2
  and 3 would do anyway: nothing is evicted and nothing is appended.
\<close>

lemma evict_and_append_Nil:
  "length w \<le> capacity \<Longrightarrow> evict_and_append capacity w [] = w"
  by (simp add: evict_and_append_def)

lemma updateWindow_shape:
  "updateWindow w ns =
     (let u = filter (\<lambda>n. n \<notin> set w) ns
      in if u = [] then w
         else drop (length w + length u - 10) w
              @ take (10 - (length w - (length w + length u - 10))) u)"
proof -
  have "nat (int a + int b - 10) = a + b - 10" for a b :: nat
    by simp
  then show ?thesis
    unfolding updateWindow_merge_spec merge_spec_def evict_and_append_def WINDOW_SIZE_def Let_def
    by (simp add: nat_diff_distrib)
qed


text \<open>
  C2: the merge computes \<open>unique\<close>, the new numbers not already in the window; evicts the
  first \<open>overflow = len(w) + len(unique) - capacity\<close> elements of the window when that is
  positive; and appends \<open>unique[0:take]\<close> with \<open>take = capacity - len(trimmed window)\<close>,
  dropping the rest of \<open>unique\<close>. With capacity 10, merging \<open>[11, 12]\<close> into the full
  window \<open>[1, \<dots>, 10]\<close> gives \<open>[3, \<dots>, 12]\<close>. The first conjunct compares the code with
  the three steps of the specification; the second says that on a window within the
  capacity the code is steps 2 and 3 applied to \<open>unique\<close>, empty or not.
\<close>

theorem merge_follows_specification:
  "updateWindow w ns = merge_spec (nat WINDOW_SIZE) w ns \<and>
   (length w \<le> nat WINDOW_SIZE \<longrightarrow>
      updateWindow w ns = evict_and_append (nat WINDOW_SIZE) w (filter (\<lambda>n. n \<notin> set w) ns)) \<and>
   nat WINDOW_SIZE = 10 \<and>
   updateWindow [1, 2, 3, 4, 5, 6, 7, 8, 9, 10 :: real] [11, 12]
     = [3, 4, 5, 6, 7, 8, 9, 10, 11, 12]"
proof -
  have scenario: "updateWindow [1, 2, 3, 4, 5, 6, 7, 8, 9, 10 :: real] [11, 12]
     = [3, 4, 5, 6, 7, 8, 9, 10, 11, 12]"
    by (simp add: updateWindow_def array_includes_def slice_from_def slice_def
        relative_index_def WINDOW_SIZE_def Let_def)
  have steps: "merge_spec c w ns = evict_and_append c w (filter (\<lambda>n. n \<notin> set w) ns)"
    if "length w \<le> c" for c
    using that evict_and_append_Nil [of w c]
    by (cases "filter (\<lambda>n. n \<notin> set w) ns = []") (simp_all add: merge_spec_def Let_def)
  show ?thesis
    using scenario steps [of "nat WINDOW_SIZE"]
    by (simp add: updateWindow_merge_spec WINDOW_SIZE_def)
qed

theorem merge_follows_specification_witness:
  "length [1, 2, 3 :: real] \<le> nat WINDOW_SIZE \<and>
   updateWindow [1, 2, 3 :: real] [3, 2] = [1, 2, 3] \<and>
   evict_and_append (nat WINDOW_SIZE) [1, 2, 3 :: real]
     (filter (\<lambda>n. n \<notin> set [1, 2, 3]) [3, 2]) = [1, 2, 3]"
  using merge_follows_specification [of "[1, 2, 3 :: real]" "[3, 2]"]
  by (simp add: WINDOW_SIZE_def updateWindow_shape)

subsection \<open>Size and contents of the window\<close>

lemma length_updateWindow:
  "length w \<le> 10 \<Longrightarrow> length (updateWindow w ns) \<le> 10"
  by (auto simp: updateWindow_shape Let_def)

lemma window_after_snoc:
  "window_after (batches @ [ns]) = updateWindow (window_after batches) ns"
  by (simp add: window_after_def)

lemma length_window_after: "length (window_after batches) \<le> 10"
proof (induction batches rule: rev_induct)
  case Nil
  show ?case by (simp add: window_after_def)
next
  case (snoc ns batches)
  then show ?case by (simp only: window_after_snoc length_updateWindow)
qed

text \<open>
  C3: every window reached from the empty window by a sequence of merges has at most
  \<^verbatim>\<open>WINDOW_SIZE\<close> = 10 elements.
\<close>

theorem window_never_exceeds_capacity:
  "int (length (window_after batches)) \<le> WINDOW_SIZE \<and> WINDOW_SIZE = 10"
  using length_window_after [of batches] by (simp add: WINDOW_SIZE_def)

text \<open>
  A merge keeps a window free of duplicates when the batch itself has none: the
  survivors are part of the old window, and the appended numbers are new and distinct.
\<close>

lemma distinct_updateWindow:
  "distinct w \<Longrightarrow> distinct ns \<Longrightarrow> distinct (updateWindow w ns)"
  by (auto simp: updateWindow_shape Let_def dest!: in_set_dropD in_set_takeD)

text \<open>
  C1: every window reached from the empty window by merges has pairwise distinct
  elements. The filter in \<^verbatim>\<open>updateWindow\<close> compares each new number with the window
  only, not with the other new numbers, so a value that occurs twice in one batch and not
  in the window is appended twice: merging \<open>[1, 1]\<close> into the empty window gives the
  window \<open>[1, 1]\<close>.
\<close>

theorem duplicates_within_a_batch_enter_the_window:
  "window_after [[1, 1 :: real]] = [1, 1] \<and> \<not> distinct (window_after [[1, 1 :: real]])"
  by (simp add: window_after_def updateWindow_def array_includes_def slice_def
      relative_index_def WINDOW_SIZE_def Let_def)

text \<open>
  C4: merging the empty sequence leaves the window as it is, and so does merging any
  sequence whose values are all in the window already, the window's own contents among
  them; this holds for a full window too, where an append would evict.
\<close>

theorem duplicate_only_merge_is_noop:
  "updateWindow w [] = w \<and> updateWindow w w = w \<and>
   (set ns \<subseteq> set w \<longrightarrow> updateWindow w ns = w)"
proof -
  have "filter (\<lambda>n. n \<notin> set w) ns = []" if "set ns \<subseteq> set w" for ns
    using that by (auto simp: filter_empty_conv)
  then show ?thesis
    by (simp add: updateWindow_shape)
qed

theorem duplicate_only_merge_is_noop_witness:
  "set [3, 1 :: real] \<subseteq> set [1, 2, 3, 4, 5, 6, 7, 8, 9, 10] \<and>
   updateWindow [1, 2, 3, 4, 5, 6, 7, 8, 9, 10 :: real] [3, 1] = [1, 2, 3, 4, 5, 6, 7, 8, 9, 10]"
  using duplicate_only_merge_is_noop [of "[1, 2, 3, 4, 5, 6, 7, 8, 9, 10 :: real]" "[3, 1]"]
  by simp

text \<open>
  C8: a merge keeps the elements of the old window in their order, removing only from
  the front, and puts the new elements after all the old ones that remain: the new window
  is the old one without its first \<open>k\<close> elements, followed by the first \<open>m\<close> of the new
  numbers that were not in it.
\<close>

theorem merge_keeps_order:
  "\<exists>k m. updateWindow w ns = drop k w @ take m (filter (\<lambda>n. \<not> array_includes w n) ns)"
proof (cases "filter (\<lambda>n. n \<notin> set w) ns = []")
  case True
  then have "updateWindow w ns = drop 0 w @ take 0 (filter (\<lambda>n. \<not> array_includes w n) ns)"
    by (simp add: updateWindow_shape)
  then show ?thesis by blast
next
  case False
  then show ?thesis
    unfolding updateWindow_shape Let_def array_includes_def by (simp only: if_False) blast
qed

text \<open>
  C10: for a window \<open>w\<close> within the capacity and a non-empty \<open>u\<close> of new numbers not in
  \<open>w\<close>, if \<open>len(w) + len(u)\<close> reaches the capacity then the merged window has exactly
  capacity elements; and when \<open>u\<close> alone reaches the capacity, nothing of the old window
  remains and the result is the first capacity elements of \<open>u\<close>.
\<close>

theorem merge_fills_window:
  assumes "int (length w) \<le> WINDOW_SIZE"
    and "u = filter (\<lambda>n. \<not> array_includes w n) ns"
    and "u \<noteq> []"
    and "int (length w) + int (length u) \<ge> WINDOW_SIZE"
  shows "int (length (updateWindow w ns)) = WINDOW_SIZE \<and>
         (int (length u) \<ge> WINDOW_SIZE \<longrightarrow> updateWindow w ns = take (nat WINDOW_SIZE) u)"
  using assms unfolding WINDOW_SIZE_def array_includes_def
  by (auto simp: updateWindow_shape Let_def)

theorem merge_fills_window_witness:
  "int (length [1 :: real]) \<le> WINDOW_SIZE \<and>
   filter (\<lambda>n. \<not> array_includes [1 :: real] n) [1, 2, 3, 4, 5, 6, 7, 8, 9, 10, 11, 12]
     = [2, 3, 4, 5, 6, 7, 8, 9, 10, 11, 12] \<and>
   int (length [1 :: real]) + int (length [2, 3, 4, 5, 6, 7, 8, 9, 10, 11, 12 :: real])
     \<ge> WINDOW_SIZE \<and>
   int (length [2, 3, 4, 5, 6, 7, 8, 9, 10, 11, 12 :: real]) \<ge> WINDOW_SIZE \<and>
   int (length (updateWindow [1 :: real] [1, 2, 3, 4, 5, 6, 7, 8, 9, 10, 11, 12]))
     = WINDOW_SIZE \<and>
   updateWindow [1 :: real] [1, 2, 3, 4, 5, 6, 7, 8, 9, 10, 11, 12]
     = [2, 3, 4, 5, 6, 7, 8, 9, 10, 11]"
  using merge_fills_window [of "[1 :: real]" "[2, 3, 4, 5, 6, 7, 8, 9, 10, 11, 12]"
      "[1, 2, 3, 4, 5, 6, 7, 8, 9, 10, 11, 12]"]
  by (simp add: WINDOW_SIZE_def array_includes_def)


section \<open>Properties of the rounding\<close>

lemma exponent_search_lower: "- 1022 \<le> exponent_search k a"
  by (induction k) simp_all

lemma exponent_search_le:
  "exponent_search k a = - 1022 \<or> 2 powi (exponent_search k a) \<le> a"
  by (induction k) simp_all

lemma exponent_search_gt:
  "a < 2 powi (int k - 1021) \<Longrightarrow> a < 2 powi (exponent_search k a + 1)"
proof (induction k)
  case 0
  then show ?case by simp
next
  case (Suc k)
  show ?case
  proof (cases "2 powi (int (Suc k) - 1022) \<le> a")
    case True
    have "int (Suc k) - 1022 + 1 = int (Suc k) - 1021" by simp
    with True Suc.prems show ?thesis by simp
  next
    case False
    have "int (Suc k) - 1022 = int k - 1021" by simp
    with False have "a < 2 powi (int k - 1021)" by simp
    with Suc.IH False show ?thesis by simp
  qed
qed

lemma binade_le: "2 powi (- 1022) \<le> a \<Longrightarrow> 2 powi (binade a) \<le> a"
  using exponent_search_le [of 2045 a] by (auto simp: binade_def)

lemma binade_gt: "a < 2 powi 1024 \<Longrightarrow> a < 2 powi (binade a + 1)"
  using exponent_search_gt [of a 2045] by (simp add: binade_def)

lemma powi_two_mono: "m \<le> n \<Longrightarrow> (2::real) powi m \<le> 2 powi n"
  by (rule power_int_increasing) simp_all

text \<open>The binade of a number is the one it lies in.\<close>

lemma binade_eq:
  assumes "- 1022 \<le> e" "e \<le> 1023" "2 powi e \<le> a" "a < 2 powi (e + 1)"
  shows "binade a = e"
proof -
  have "(2::real) powi (- 1022) \<le> 2 powi e"
    using assms(1) by (rule powi_two_mono)
  with assms(3) have lo: "2 powi (binade a) \<le> a"
    by (intro binade_le) simp
  have "(2::real) powi (e + 1) \<le> 2 powi 1024"
    using assms(2) by (intro powi_two_mono) simp
  with assms(4) have hi: "a < 2 powi (binade a + 1)"
    by (intro binade_gt) simp
  have "binade a < e + 1"
  proof (rule ccontr)
    assume "\<not> binade a < e + 1"
    then have "(2::real) powi (e + 1) \<le> 2 powi (binade a)"
      by (intro powi_two_mono) simp
    with lo assms(4) show False by simp
  qed
  moreover have "e < binade a + 1"
  proof (rule ccontr)
    assume "\<not> e < binade a + 1"
    then have "(2::real) powi (binade a + 1) \<le> 2 powi e"
      by (intro powi_two_mono) simp
    with hi assms(3) show False by simp
  qed
  ultimately show ?thesis by simp
qed

lemma round_even_of_int: "round_even (of_int m) = m"
  by (simp add: round_even_def)

lemma to_double_zero: "to_double 0 = Num 0"
  by (simp add: to_double_def round_even_def)

lemma below_overflow:
  assumes "\<bar>y\<bar> \<le> 2 ^ 64"
  shows "\<not> 2 powi 1024 \<le> \<bar>y :: real\<bar>"
proof -
  have "(2::real) ^ 64 = 2 powi 64" by (simp only: power_int_numeral)
  also have "\<dots> < 2 powi 1024" by (rule power_int_strict_increasing) simp_all
  finally have "(2::real) ^ 64 < 2 powi 1024" .
  with assms show ?thesis by (simp only: not_le le_less_trans)
qed

text \<open>
  Rounding a number of a known binade; this is how \<open>to_double\<close> is evaluated on a given
  number without running the search.
\<close>

lemma to_double_rounded:
  assumes "- 1022 \<le> e" "e \<le> 1023" "2 powi e \<le> \<bar>x\<bar>" "\<bar>x\<bar> < 2 powi (e + 1)"
    and "y = of_int (round_even (x / 2 powi (e - 52))) * 2 powi (e - 52)"
    and "\<bar>y\<bar> \<le> 2 ^ 64"
  shows "to_double x = Num y"
  unfolding to_double_def binade_eq [OF assms(1-4)] Let_def assms(5) [symmetric]
  using below_overflow [OF assms(6)] by (simp only: if_False)

text \<open>Every integer of magnitude up to \<open>2\<^sup>5\<^sup>3\<close> is a double.\<close>

lemma representable_int:
  assumes "\<bar>n\<bar> \<le> 2 ^ 53"
  shows "representable (of_int n)"
proof (cases "n = 0")
  case True
  then show ?thesis by (simp add: representable_def to_double_zero)
next
  case False
  define a where "a = \<bar>real_of_int n\<bar>"
  define e where "e = binade a"
  have a1: "1 \<le> a" using False by (simp add: a_def)
  have a53: "a \<le> 2 ^ 53"
  proof -
    have "real_of_int \<bar>n\<bar> \<le> real_of_int (2 ^ 53)" using assms by (simp only: of_int_le_iff)
    then show ?thesis by (simp add: a_def)
  qed
  have lo: "2 powi e \<le> a"
    unfolding e_def using a1 by (intro binade_le) (simp add: power_int_minus field_simps)
  have hi: "a < 2 powi (e + 1)"
    unfolding e_def using a53 by (intro binade_gt) simp
  have e_hi: "e \<le> 53"
  proof (rule ccontr)
    assume "\<not> e \<le> 53"
    then have "(2::real) powi 54 \<le> 2 powi e" by (intro powi_two_mono) simp
    with lo a53 show False by simp
  qed
  have e_lo: "0 \<le> e"
  proof (rule ccontr)
    assume "\<not> 0 \<le> e"
    then have "(2::real) powi (e + 1) \<le> 2 powi 0" by (intro powi_two_mono) simp
    with hi a1 show False by simp
  qed
  have rounded: "of_int (round_even (of_int n / 2 powi (e - 52))) * 2 powi (e - 52)
      = real_of_int n"
  proof (cases "e \<le> 52")
    case True
    define k where "k = nat (52 - e)"
    have ulp: "(2::real) powi (e - 52) = 1 / 2 ^ k"
      using True by (simp add: k_def power_int_def field_simps)
    have "real_of_int n / 2 powi (e - 52) = of_int (n * 2 ^ k)"
      by (simp add: ulp)
    then show ?thesis
      by (simp only: round_even_of_int) (simp add: ulp)
  next
    case False
    with e_hi have e53: "e = 53" by simp
    with lo a53 have "a = 2 ^ 53" by simp
    then have "\<bar>n\<bar> = 2 ^ 53"
      unfolding a_def by (metis of_int_abs of_int_eq_iff of_int_numeral of_int_power)
    then have "n = 2 ^ 53 \<or> n = - (2 ^ 53)" by (simp add: abs_if split: if_splits)
    then have even: "n = 2 * (n div 2)" by auto
    have half: "real_of_int n / 2 = of_int (n div 2)"
      by (subst even) simp
    have "real_of_int (n div 2) * 2 = real_of_int (2 * (n div 2))"
      by simp
    also have "\<dots> = real_of_int n"
      using even by simp
    finally show ?thesis
      by (simp add: e53 half round_even_of_int)
  qed
  have "\<bar>real_of_int n\<bar> < 2 powi 1024"
    using a53 by (simp add: a_def)
  then show ?thesis
    unfolding representable_def to_double_def Let_def
    using rounded by (simp add: a_def [symmetric] e_def [symmetric])
qed

lemma to_double_numeral [simp]:
  "numeral k \<le> (9007199254740992 :: int) \<Longrightarrow> to_double (numeral k) = Num (numeral k)"
  using representable_int [of "numeral k"] unfolding representable_def by simp

lemma to_double_one [simp]: "to_double 1 = Num 1"
  using representable_int [of 1] unfolding representable_def by simp

text \<open>
  Three roundings that are not exact: \<open>2\<^sup>5\<^sup>3 + 1\<close> lies halfway between two doubles
  and goes to the even one, and the two thirds lie in the binade of \<open>2\<^sup>5\<^sup>1\<close>, where the
  doubles are the multiples of 1/2.
\<close>

lemma to_double_tie: "to_double 9007199254740993 = Num 9007199254740992"
  by (rule to_double_rounded [of 53]) (simp_all add: round_even_def)

lemma to_double_third: "to_double (9007199254740992 / 3) = Num (6004799503160661 / 2)"
  by (rule to_double_rounded [of 51]) (simp_all add: round_even_def power_int_minus)

lemma to_double_mean: "to_double (9007199254740994 / 3) = Num (6004799503160663 / 2)"
  by (rule to_double_rounded [of 51]) (simp_all add: round_even_def power_int_minus)

lemma to_double_four_thirds:
  "to_double (4 / 3) = Num (6004799503160661 / 4503599627370496)"
  by (rule to_double_rounded [of 0]) (simp_all add: round_even_def power_int_minus)

text \<open>A sum that reaches \<open>2\<^sup>1\<^sup>0\<^sup>2\<^sup>4\<close> is rounded to infinity.\<close>

lemma binade_top: "2 powi 1023 \<le> a \<Longrightarrow> binade a = 1023"
proof -
  assume a: "2 powi 1023 \<le> a"
  have "(2045::nat) = Suc 2044" by simp
  then have "binade a = exponent_search (Suc 2044) a" by (simp only: binade_def)
  also have "\<dots> = 1023" using a by (simp only: exponent_search.simps) simp
  finally show ?thesis .
qed

lemma to_double_overflow: "to_double (2 powi 1023 + 2 powi 1023) = Infinity"
proof -
  have s: "(2::real) powi 1023 + 2 powi 1023 = 2 powi 1024"
    using power_int_add_1 [of "2::real" 1023] by simp
  have p: "(0::real) < 2 powi 1024" by (rule zero_less_power_int) simp
  have b: "binade \<bar>(2::real) powi 1024\<bar> = 1023"
    using p by (intro binade_top) (simp add: powi_two_mono)
  have q: "(2::real) powi 1024 / 2 powi (1023 - 52) = of_int (2 ^ 53)"
    using power_int_diff [of "2::real" 1024 971] by simp
  have y: "real_of_int (2 ^ 53) * 2 powi (1023 - 52) = 2 powi 1024"
    using power_int_add [of "2::real" 53 971] by simp
  show ?thesis
    unfolding s to_double_def b Let_def q round_even_of_int y using p by simp
qed

section \<open>Properties of the average\<close>

text \<open>
  As long as every running sum is a double, the loop of \<^verbatim>\<open>reduce\<close> adds without
  rounding.
\<close>

lemma foldl_js_add_exact:
  "(\<forall>k \<le> length xs. representable (a + sum_list (take k xs))) \<Longrightarrow>
   foldl (\<lambda>acc num. js_add acc num) (Num a) (map Num xs) = Num (a + sum_list xs)"
proof (induction xs arbitrary: a)
  case Nil
  show ?case by simp
next
  case (Cons x xs)
  from Cons.prems [rule_format, of 1] have "representable (a + x)"
    by simp
  then have step: "to_double (a + x) = Num (a + x)"
    by (simp only: representable_def)
  have "\<forall>k \<le> length xs. representable (a + x + sum_list (take k xs))"
  proof (intro allI impI)
    fix k assume "k \<le> length xs"
    with Cons.prems [rule_format, of "Suc k"]
    show "representable (a + x + sum_list (take k xs))"
      by (simp add: add.assoc)
  qed
  from Cons.IH [OF this] show ?case
    by (simp add: step add.assoc)
qed

lemma calculateAverage_exact_sums:
  assumes "xs \<noteq> []" and "\<forall>k \<le> length xs. representable (sum_list (take k xs))"
  shows "calculateAverage (map Num xs) = to_double (sum_list xs / real (length xs))"
proof -
  have "foldl (\<lambda>acc num. js_add acc num) (Num 0) (map Num xs) = Num (0 + sum_list xs)"
    using assms(2) by (intro foldl_js_add_exact) simp
  with assms(1) show ?thesis
    by (simp add: calculateAverage_def)
qed

lemma sum_list_of_int: "sum_list (map real_of_int ns) = real_of_int (sum_list ns)"
  by (induction ns) simp_all

lemma calculateAverage_integers:
  assumes "ns \<noteq> []" and "\<forall>k \<le> length ns. \<bar>sum_list (take k ns)\<bar> \<le> 2 ^ 53"
  shows "calculateAverage (map (\<lambda>n. Num (real_of_int n)) ns) =
         to_double (real_of_int (sum_list ns) / real (length ns))"
proof -
  have "\<forall>k \<le> length (map real_of_int ns).
          representable (sum_list (take k (map real_of_int ns)))"
  proof (intro allI impI)
    fix k assume "k \<le> length (map real_of_int ns)"
    then have "\<bar>sum_list (take k ns)\<bar> \<le> 2 ^ 53"
      using assms(2) by simp
    then have "representable (real_of_int (sum_list (take k ns)))"
      by (rule representable_int)
    then show "representable (sum_list (take k (map real_of_int ns)))"
      by (simp only: take_map sum_list_of_int)
  qed
  with assms(1) have "calculateAverage (map Num (map real_of_int ns)) =
      to_double (sum_list (map real_of_int ns) / real (length (map real_of_int ns)))"
    by (intro calculateAverage_exact_sums) simp_all
  then show ?thesis
    by (simp add: sum_list_of_int comp_def)
qed

text \<open>
  With exact sums the quotient is still rounded: the mean of 1, 1, 2 is 4/3, and the
  average is the double next to it.
\<close>

lemma average_rounds_quotient:
  "calculateAverage [Num 1, Num 1, Num 2] = Num (6004799503160661 / 4503599627370496)"
  by (simp add: calculateAverage_def to_double_four_thirds)

lemma average_scenario:
  "calculateAverage [Num 4, Num 8, Num 15, Num 16, Num 23, Num 42] = Num 18"
  by (simp add: calculateAverage_def)

text \<open>
  C5, as stated: the average of every non-empty window is the sum of its elements
  divided by their number. The sum is taken in doubles, one addition after the other, and
  each addition rounds. In the window \<open>[2\<^sup>5\<^sup>3, 1, 1]\<close> both additions of 1 are lost, so the
  code divides \<open>2\<^sup>5\<^sup>3\<close> by 3 and returns 3002399751580330.5, which is neither the mean
  \<open>(2\<^sup>5\<^sup>3 + 2) / 3\<close> nor the double nearest to it.
\<close>

theorem average_loses_small_addends:
  "calculateAverage (map Num [2 ^ 53, 1, 1]) = Num (6004799503160661 / 2) \<and>
   calculateAverage (map Num [2 ^ 53, 1, 1])
     \<noteq> Num (sum_list [2 ^ 53, 1, 1] / real (length [2 ^ 53, 1, 1 :: real])) \<and>
   calculateAverage (map Num [2 ^ 53, 1, 1])
     \<noteq> to_double (sum_list [2 ^ 53, 1, 1] / real (length [2 ^ 53, 1, 1 :: real]))"
  by (simp add: calculateAverage_def to_double_tie to_double_third to_double_mean)

text \<open>
  C5, amended: for every non-empty window of finite numbers whose running sums, taken
  from the left, are doubles, the average is the sum of the elements divided by their
  number, rounded to the nearest double; this covers every window of integers whose
  running sums stay within \<open>2\<^sup>5\<^sup>3\<close> in magnitude. The average of the empty window is 0.
  Merging \<open>[4, 8, 15, 16, 23, 42]\<close> into the empty window gives that sequence as the
  window, and its average is 18, also after rounding to two decimals.
\<close>

theorem average_of_exactly_summed_window:
  "calculateAverage [] = Num 0 \<and>
   (xs \<noteq> [] \<and> (\<forall>k \<le> length xs. representable (sum_list (take k xs))) \<longrightarrow>
      calculateAverage (map Num xs) = to_double (sum_list xs / real (length xs))) \<and>
   (ns \<noteq> [] \<and> (\<forall>k \<le> length ns. \<bar>sum_list (take k ns)\<bar> \<le> 2 ^ 53) \<longrightarrow>
      calculateAverage (map (\<lambda>n. Num (real_of_int n)) ns) =
        to_double (real_of_int (sum_list ns) / real (length ns))) \<and>
   updateWindow [] [Num 4, Num 8, Num 15, Num 16, Num 23, Num 42]
     = [Num 4, Num 8, Num 15, Num 16, Num 23, Num 42] \<and>
   calculateAverage (updateWindow [] [Num 4, Num 8, Num 15, Num 16, Num 23, Num 42]) = Num 18 \<and>
   toFixed2 (calculateAverage (updateWindow [] [Num 4, Num 8, Num 15, Num 16, Num 23, Num 42]))
     = Num 18"
proof -
  have w: "updateWindow [] [Num 4, Num 8, Num 15, Num 16, Num 23, Num 42]
     = [Num 4, Num 8, Num 15, Num 16, Num 23, Num 42]"
    by (simp add: updateWindow_shape)
  have r: "toFixed2 (Num 18) = Num 18"
    by simp
  have e: "calculateAverage [] = Num 0"
    by (simp add: calculateAverage_def)
  show ?thesis
    unfolding w average_scenario r
    using e calculateAverage_exact_sums [of xs] calculateAverage_integers [of ns]
    by blast
qed

theorem average_of_exactly_summed_window_witness:
  "[1, 2, 6 :: real] \<noteq> [] \<and>
   representable (sum_list (take 0 [1, 2, 6])) \<and>
   representable (sum_list (take 1 [1, 2, 6])) \<and>
   representable (sum_list (take 2 [1, 2, 6])) \<and>
   representable (sum_list (take 3 [1, 2, 6])) \<and>
   calculateAverage (map Num [1, 2, 6]) = Num 3 \<and>
   [2 ^ 53 - 2, 1, 1 :: int] \<noteq> [] \<and>
   \<bar>sum_list (take 0 [2 ^ 53 - 2, 1, 1 :: int])\<bar> \<le> 2 ^ 53 \<and>
   \<bar>sum_list (take 1 [2 ^ 53 - 2, 1, 1 :: int])\<bar> \<le> 2 ^ 53 \<and>
   \<bar>sum_list (take 2 [2 ^ 53 - 2, 1, 1 :: int])\<bar> \<le> 2 ^ 53 \<and>
   \<bar>sum_list (take 3 [2 ^ 53 - 2, 1, 1 :: int])\<bar> \<le> 2 ^ 53 \<and>
   calculateAverage (map (\<lambda>n. Num (real_of_int n)) [2 ^ 53 - 2, 1, 1])
     = Num (6004799503160661 / 2)"
proof -
  have two: "take 2 [a, b, c] = [a, b]" for a b c :: 'a
    by (simp add: numeral_2_eq_2)
  have xs: "\<forall>k \<le> length [1, 2, 6 :: real]. representable (sum_list (take k [1, 2, 6]))"
    by (auto simp: le_Suc_eq representable_def to_double_zero)
  have ns: "\<forall>k \<le> length [2 ^ 53 - 2, 1, 1 :: int].
      \<bar>sum_list (take k [2 ^ 53 - 2, 1, 1 :: int])\<bar> \<le> 2 ^ 53"
    by (auto simp: le_Suc_eq)
  from xs ns
    average_of_exactly_summed_window [of "[1, 2, 6]" "[2 ^ 53 - 2, 1, 1]"]
  show ?thesis
    by (simp add: to_double_third two representable_def to_double_zero)
qed

section \<open>Properties of the fetch and of the route\<close>

lemma valid_ids:
  "array_includes [''p'', ''f'', ''e'', ''r''] numberid
     \<longleftrightarrow> numberid \<in> {''p'', ''f'', ''e'', ''r''}"
  by (auto simp: array_includes_def)

lemma endpoint_p: "endpoint ''p'' = ''http://20.244.56.144/evaluation-service/primes''"
  by (simp add: endpoint_def API_ENDPOINTS_def)

lemma decimal_503: "decimal 503 = ''503''"
  by (simp add: decimal.simps)

lemma fetch_unavailable:
  "fetchNumbersWithTimeout upstream_unavailable url 500 =
     Inl \<lparr>err_name = ''Error'', err_message = ''Status: 503''\<rparr>"
  by (simp add: fetchNumbersWithTimeout_def fetch_attempt_def fetch_with_abort_def
      upstream_unavailable_def ok_def decimal_503)







text \<open>
  A fetched value that is not an array makes \<^verbatim>\<open>updateWindow\<close> throw before it touches
  the window: the route answers 500 and the window stays.
\<close>

lemma non_array_numbers_answered_500:
  "numbers_route upstream_scalar [Num 2, Num 4] ''p'' =
     \<lparr>answer = \<lparr>code = 500,
                 content = ErrorJson ''Failed to process request''
                             (Some ''newNumbers.filter is not a function'')\<rparr>,
      window = [Num 2, Num 4],
      effects = [UpstreamRequest ''http://20.244.56.144/evaluation-service/primes'']\<rparr>"
  by (simp add: numbers_route_def valid_ids endpoint_p fetchNumbersWithTimeout_def
      fetch_attempt_def fetch_with_abort_def upstream_scalar_def ok_def)

text \<open>
  C7: when the fetch raises an error, the route answers 500 and leaves the window as it
  was; its only effect is the request to the upstream, and no merge is performed.
\<close>

theorem failed_fetch_leaves_window:
  assumes "numberid \<in> {''p'', ''f'', ''e'', ''r''}"
    and "fetchNumbersWithTimeout fetch (endpoint numberid) 500 = Inl err"
  shows "window (numbers_route fetch w numberid) = w \<and>
         effects (numbers_route fetch w numberid) = [UpstreamRequest (endpoint numberid)] \<and>
         answer (numbers_route fetch w numberid) =
           \<lparr>code = 500,
            content = ErrorJson ''Failed to process request'' (Some (err_message err))\<rparr>"
  using assms by (simp add: numbers_route_def valid_ids Let_def)

theorem failed_fetch_leaves_window_witness:
  "''p'' \<in> {''p'', ''f'', ''e'', ''r''} \<and>
   fetchNumbersWithTimeout upstream_unavailable (endpoint ''p'') 500 =
     Inl \<lparr>err_name = ''Error'', err_message = ''Status: 503''\<rparr> \<and>
   window (numbers_route upstream_unavailable [Num 2, Num 4] ''p'') = [Num 2, Num 4] \<and>
   effects (numbers_route upstream_unavailable [Num 2, Num 4] ''p'') =
     [UpstreamRequest ''http://20.244.56.144/evaluation-service/primes''] \<and>
   answer (numbers_route upstream_unavailable [Num 2, Num 4] ''p'') =
     \<lparr>code = 500, content = ErrorJson ''Failed to process request'' (Some ''Status: 503'')\<rparr>"
  using failed_fetch_leaves_window [of "''p''" upstream_unavailable _ "[Num 2, Num 4]",
      OF _ fetch_unavailable] fetch_unavailable [of "endpoint ''p''"]
  by (simp add: endpoint_p)

text \<open>
  C9: a request whose category is none of \<open>p\<close>, \<open>f\<close>, \<open>e\<close>, \<open>r\<close> is answered 400 with
  the error \<open>Invalid number ID. Use p, f, e, or r.\<close>; the check comes before the fetch, so
  nothing is requested upstream and the window is as it was.
\<close>

theorem invalid_category_rejected:
  assumes "numberid \<notin> {''p'', ''f'', ''e'', ''r''}"
  shows "answer (numbers_route fetch w numberid) =
           \<lparr>code = 400, content = ErrorJson ''Invalid number ID. Use p, f, e, or r.'' None\<rparr> \<and>
         effects (numbers_route fetch w numberid) = [] \<and>
         window (numbers_route fetch w numberid) = w"
  using assms by (simp add: numbers_route_def valid_ids)

theorem invalid_category_rejected_witness:
  "''x'' \<notin> {''p'', ''f'', ''e'', ''r''} \<and>
   answer (numbers_route upstream_without_numbers [Num 2, Num 4] ''x'') =
     \<lparr>code = 400, content = ErrorJson ''Invalid number ID. Use p, f, e, or r.'' None\<rparr> \<and>
   effects (numbers_route upstream_without_numbers [Num 2, Num 4] ''x'') = [] \<and>
   window (numbers_route upstream_without_numbers [Num 2, Num 4] ''x'') = [Num 2, Num 4]"
  using invalid_category_rejected [of "''x''" upstream_without_numbers "[Num 2, Num 4]"] by simp

end
